theory Spec2Isabelle
  imports Main "HOL-Library.Word"
begin

section \<open>Machine types of the wrapper layer\<close>

text \<open>
  The wrappers of \<^verbatim>\<open>src/unnamed/part_000\<close> forward to the entry points of a graphics
  driver. \<^verbatim>\<open>GLuint\<close> and \<^verbatim>\<open>GLenum\<close> are unsigned 32-bit integers, \<^verbatim>\<open>GLint\<close> and
  \<^verbatim>\<open>GLsizei\<close> signed ones: all four are 32-bit words here, the signed ones read with
  \<open>sint\<close> wherever the source compares them. A \<^verbatim>\<open>std::string_view\<close> and a
  \<^verbatim>\<open>const char*\<close> to a C string are the characters they denote.
\<close>

type_synonym GLuint = "32 word"
type_synonym GLenum = "32 word"
type_synonym GLint = "32 word"
type_synonym GLsizei = "32 word"

section \<open>The constants of the absent OpenGL headers\<close>

text \<open>
  The source says of itself: "OpenGL #includes deliberately absent". The values of the
  enumerators it names are therefore parameters of the model, grouped by use. Every
  function below that names an enumerator takes the group it belongs to.
\<close>

record object_enums =
  GL_VERTEX_ARRAY :: GLenum
  GL_BUFFER :: GLenum
  GL_TEXTURE :: GLenum
  GL_FRAMEBUFFER :: GLenum
  GL_SHADER :: GLenum
  GL_PROGRAM :: GLenum

record query_enums =
  GL_COMPILE_STATUS :: GLenum
  GL_LINK_STATUS :: GLenum
  GL_INFO_LOG_LENGTH :: GLenum
  GL_FALSE :: GLint

record source_enums =
  GL_DEBUG_SOURCE_API :: GLenum
  GL_DEBUG_SOURCE_WINDOW_SYSTEM :: GLenum
  GL_DEBUG_SOURCE_SHADER_COMPILER :: GLenum
  GL_DEBUG_SOURCE_THIRD_PARTY :: GLenum
  GL_DEBUG_SOURCE_APPLICATION :: GLenum
  GL_DEBUG_SOURCE_OTHER :: GLenum

record type_enums =
  GL_DEBUG_TYPE_ERROR :: GLenum
  GL_DEBUG_TYPE_DEPRECATED_BEHAVIOR :: GLenum
  GL_DEBUG_TYPE_UNDEFINED_BEHAVIOR :: GLenum
  GL_DEBUG_TYPE_PORTABILITY :: GLenum
  GL_DEBUG_TYPE_PERFORMANCE :: GLenum
  GL_DEBUG_TYPE_OTHER :: GLenum
  GL_DEBUG_TYPE_MARKER :: GLenum

record severity_enums =
  GL_DEBUG_SEVERITY_HIGH :: GLenum
  GL_DEBUG_SEVERITY_MEDIUM :: GLenum
  GL_DEBUG_SEVERITY_LOW :: GLenum
  GL_DEBUG_SEVERITY_NOTIFICATION :: GLenum

text \<open>
  The values the Khronos headers give these enumerators. They serve as the concrete
  instance at which the general statements are evaluated.
\<close>

definition khronos_objects :: object_enums where
  "khronos_objects =
     \<lparr>GL_VERTEX_ARRAY = 0x8074, GL_BUFFER = 0x82E0, GL_TEXTURE = 0x1702,
      GL_FRAMEBUFFER = 0x8D40, GL_SHADER = 0x82E1, GL_PROGRAM = 0x82E2\<rparr>"

definition khronos_queries :: query_enums where
  "khronos_queries =
     \<lparr>GL_COMPILE_STATUS = 0x8B81, GL_LINK_STATUS = 0x8B82, GL_INFO_LOG_LENGTH = 0x8B84,
      GL_FALSE = 0\<rparr>"

definition khronos_sources :: source_enums where
  "khronos_sources =
     \<lparr>GL_DEBUG_SOURCE_API = 0x8246, GL_DEBUG_SOURCE_WINDOW_SYSTEM = 0x8247,
      GL_DEBUG_SOURCE_SHADER_COMPILER = 0x8248, GL_DEBUG_SOURCE_THIRD_PARTY = 0x8249,
      GL_DEBUG_SOURCE_APPLICATION = 0x824A, GL_DEBUG_SOURCE_OTHER = 0x824B\<rparr>"

definition khronos_types :: type_enums where
  "khronos_types =
     \<lparr>GL_DEBUG_TYPE_ERROR = 0x824C, GL_DEBUG_TYPE_DEPRECATED_BEHAVIOR = 0x824D,
      GL_DEBUG_TYPE_UNDEFINED_BEHAVIOR = 0x824E, GL_DEBUG_TYPE_PORTABILITY = 0x824F,
      GL_DEBUG_TYPE_PERFORMANCE = 0x8250, GL_DEBUG_TYPE_OTHER = 0x8251,
      GL_DEBUG_TYPE_MARKER = 0x8268\<rparr>"

definition khronos_severities :: severity_enums where
  "khronos_severities =
     \<lparr>GL_DEBUG_SEVERITY_HIGH = 0x9146, GL_DEBUG_SEVERITY_MEDIUM = 0x9147,
      GL_DEBUG_SEVERITY_LOW = 0x9148, GL_DEBUG_SEVERITY_NOTIFICATION = 0x826B\<rparr>"

section \<open>The driver and the world around the wrappers\<close>

text \<open>
  One constructor per driver entry point the modelled code calls, carrying the arguments
  the code passes by value. An output argument (the name written by \<^verbatim>\<open>glGen*\<close>, the
  status written by \<^verbatim>\<open>glGet*iv\<close>, the text written by \<^verbatim>\<open>glGet*InfoLog\<close>) is not part
  of the call: it is the driver's reply. The driver is taken to write every output
  argument it is handed; the source reads \<^verbatim>\<open>status\<close> and \<^verbatim>\<open>logLength\<close>, which it
  does not initialise, right after the query. \<^verbatim>\<open>glShaderSource\<close> is always called with
  one string and no length array, so it carries the count and that string.
\<close>

datatype glcall =
    GenVertexArrays GLsizei
  | BindVertexArray GLuint
  | ObjectLabel GLenum GLuint GLsizei string
  | GenBuffers GLsizei
  | BindBuffer GLenum GLuint
  | MapBuffer GLenum GLenum
  | UnmapBuffer GLenum
  | GenTextures GLsizei
  | BindTexture GLenum GLuint
  | TexStorage1D GLenum GLsizei GLenum GLsizei
  | TexStorage2D GLenum GLsizei GLenum GLsizei GLsizei
  | TexStorage3D GLenum GLsizei GLenum GLsizei GLsizei GLsizei
  | GenFramebuffers GLsizei
  | BindFramebuffer GLenum GLuint
  | CreateShader GLenum
  | ShaderSource GLuint GLsizei string
  | CompileShader GLuint
  | GetShaderiv GLuint GLenum
  | GetShaderInfoLog GLuint GLsizei
  | CreateProgram
  | AttachShader GLuint GLuint
  | DetachShader GLuint GLuint
  | LinkProgram GLuint
  | ValidateProgram GLuint
  | GetProgramiv GLuint GLenum
  | GetProgramInfoLog GLuint GLsizei
  | UseProgram GLuint
  | PushDebugGroup GLenum GLuint GLsizei string
  | PopDebugGroup

text \<open>
  The driver is external. What it answers may depend on everything it has been asked so
  far, so each reply is a function of the history of calls, the answered call last.
\<close>

record driver =
  name_reply :: "glcall list \<Rightarrow> GLuint"
  iv_reply :: "glcall list \<Rightarrow> GLint"
  log_reply :: "glcall list \<Rightarrow> string"
  ptr_reply :: "glcall list \<Rightarrow> nat"

text \<open>
  The observable world: the driver calls issued so far (oldest first), the argument of
  each \<^verbatim>\<open>printf("LOG: %s\n", p)\<close> executed (\<open>None\<close> for a null \<open>p\<close>), the text of each
  \<^verbatim>\<open>fprintf(stderr, ...)\<close> executed, and the size of each \<^verbatim>\<open>new char[n]\<close> executed.
\<close>

record world =
  calls :: "glcall list"
  stdout_log :: "string option list"
  stderr_text :: "string list"
  allocs :: "nat list"

definition call :: "glcall \<Rightarrow> world \<Rightarrow> world" where
  "call c w = w\<lparr>calls := calls w @ [c]\<rparr>"

definition printf_LOG :: "string option \<Rightarrow> world \<Rightarrow> world" where
  "printf_LOG p w = w\<lparr>stdout_log := stdout_log w @ [p]\<rparr>"

definition fprintf_stderr :: "string \<Rightarrow> world \<Rightarrow> world" where
  "fprintf_stderr t w = w\<lparr>stderr_text := stderr_text w @ [t]\<rparr>"

definition new_char_array :: "nat \<Rightarrow> world \<Rightarrow> world" where
  "new_char_array n w = w\<lparr>allocs := allocs w @ [n]\<rparr>"

text \<open>Entry points that answer: the reply is read off the history that ends in the call.\<close>

definition gen_name :: "driver \<Rightarrow> glcall \<Rightarrow> world \<Rightarrow> GLuint \<times> world" where
  "gen_name d c w = (name_reply d (calls w @ [c]), call c w)"

definition get_iv :: "driver \<Rightarrow> glcall \<Rightarrow> world \<Rightarrow> GLint \<times> world" where
  "get_iv d c w = (iv_reply d (calls w @ [c]), call c w)"

definition get_info_log :: "driver \<Rightarrow> glcall \<Rightarrow> world \<Rightarrow> string \<times> world" where
  "get_info_log d c w = (log_reply d (calls w @ [c]), call c w)"

definition glMapBuffer :: "driver \<Rightarrow> GLenum \<Rightarrow> GLenum \<Rightarrow> world \<Rightarrow> nat \<times> world" where
  "glMapBuffer d tgt access w =
     (ptr_reply d (calls w @ [MapBuffer tgt access]), call (MapBuffer tgt access) w)"

section \<open>The wrappers\<close>

text \<open>
  \<^verbatim>\<open>struct GLHandle { GLuint handle = 0; ... }\<close>; every wrapper derives from it. A
  method is a function of the object and the world that returns both as the method leaves
  them (a method with a result returns the result and the world).
\<close>

record GLHandle =
  handle :: GLuint

subsection \<open>GLBuffer\<close>

record GLBuffer = GLHandle +
  target :: GLenum

definition GLBuffer_ctor ::
  "object_enums \<Rightarrow> driver \<Rightarrow> GLenum \<Rightarrow> string \<Rightarrow> world \<Rightarrow> GLBuffer \<times> world" where
  "GLBuffer_ctor k d tgt name w =
     (let (h, w1) = gen_name d (GenBuffers 1) w;
          w2 = call (BindBuffer tgt h) w1;
          w3 = call (ObjectLabel (GL_BUFFER k) h (of_nat (length name)) name) w2
      in (\<lparr>handle = h, target = tgt\<rparr>, w3))"

definition GLBuffer_bind :: "GLBuffer \<Rightarrow> world \<Rightarrow> GLBuffer \<times> world" where
  "GLBuffer_bind b w = (b, call (BindBuffer (GLBuffer.target b) (handle b)) w)"

definition GLBuffer_unbind :: "GLBuffer \<Rightarrow> world \<Rightarrow> GLBuffer \<times> world" where
  "GLBuffer_unbind b w = (b, call (BindBuffer (GLBuffer.target b) 0) w)"

definition GLBuffer_map :: "driver \<Rightarrow> GLBuffer \<Rightarrow> GLenum \<Rightarrow> world \<Rightarrow> GLBuffer \<times> world" where
  "GLBuffer_map d b access w =
     (let (p, w1) = glMapBuffer d (GLBuffer.target b) access w in (b, w1))"

definition GLBuffer_unmap :: "GLBuffer \<Rightarrow> GLenum \<Rightarrow> world \<Rightarrow> GLBuffer \<times> world" where
  "GLBuffer_unmap b access w = (b, call (UnmapBuffer (GLBuffer.target b)) w)"

subsection \<open>VAO\<close>

type_synonym VAO = GLHandle

definition VAO_ctor :: "object_enums \<Rightarrow> driver \<Rightarrow> string \<Rightarrow> world \<Rightarrow> VAO \<times> world" where
  "VAO_ctor k d name w =
     (let (h, w1) = gen_name d (GenVertexArrays 1) w;
          w2 = call (BindVertexArray h) w1;
          w3 = call (ObjectLabel (GL_VERTEX_ARRAY k) h (of_nat (length name)) name) w2
      in (\<lparr>handle = h\<rparr>, w3))"

definition VAO_bind :: "VAO \<Rightarrow> world \<Rightarrow> VAO \<times> world" where
  "VAO_bind v w = (v, call (BindVertexArray (handle v)) w)"

subsection \<open>GLTexture\<close>

text \<open>
  \<^verbatim>\<open>height\<close> and \<^verbatim>\<open>depth\<close> default to 1 at the call site; the constructor itself
  receives all three sizes.
\<close>

record GLTexture = GLHandle +
  target :: GLenum

definition GLTexture_ctor ::
  "object_enums \<Rightarrow> driver \<Rightarrow> GLenum \<Rightarrow> string \<Rightarrow> GLsizei \<Rightarrow> GLenum \<Rightarrow> GLsizei \<Rightarrow> GLsizei \<Rightarrow> GLsizei
     \<Rightarrow> world \<Rightarrow> GLTexture \<times> world" where
  "GLTexture_ctor k d tgt name levels internalformat width height depth w =
     (let (h, w1) = gen_name d (GenTextures 1) w;
          w2 = call (BindTexture tgt h) w1;
          w3 = call (ObjectLabel (GL_TEXTURE k) h (of_nat (length name)) name) w2;
          w4 = (if depth \<noteq> 1 then
                  call (TexStorage3D tgt levels internalformat width height depth) w3
                else if height \<noteq> 1 then
                  call (TexStorage2D tgt levels internalformat width height) w3
                else
                  call (TexStorage1D tgt levels internalformat width) w3)
      in (\<lparr>handle = h, target = tgt\<rparr>, w4))"

definition GLTexture_bind :: "GLTexture \<Rightarrow> world \<Rightarrow> GLTexture \<times> world" where
  "GLTexture_bind t w = (t, call (BindTexture (GLTexture.target t) (handle t)) w)"

subsection \<open>GLFBO\<close>

text \<open>The \<^verbatim>\<open>target\<close> field is \<^verbatim>\<open>mutable\<close>: the const methods below assign it.\<close>

record GLFBO = GLHandle +
  target :: GLenum

definition GLFBO_ctor ::
  "object_enums \<Rightarrow> driver \<Rightarrow> GLenum \<Rightarrow> string \<Rightarrow> GLsizei \<Rightarrow> GLenum \<Rightarrow> GLsizei \<Rightarrow> GLsizei \<Rightarrow> GLsizei
     \<Rightarrow> world \<Rightarrow> GLFBO \<times> world" where
  "GLFBO_ctor k d tgt name levels internalformat width height depth w =
     (let (h, w1) = gen_name d (GenFramebuffers 1) w;
          w2 = call (BindFramebuffer tgt h) w1;
          w3 = call (ObjectLabel (GL_FRAMEBUFFER k) h (of_nat (length name)) name) w2;
          w4 = (if depth \<noteq> 1 then
                  call (TexStorage3D tgt levels internalformat width height depth) w3
                else if height \<noteq> 1 then
                  call (TexStorage2D tgt levels internalformat width height) w3
                else
                  call (TexStorage1D tgt levels internalformat width) w3)
      in (\<lparr>handle = h, target = tgt\<rparr>, w4))"

definition GLFBO_bind :: "GLFBO \<Rightarrow> GLenum \<Rightarrow> world \<Rightarrow> GLFBO \<times> world" where
  "GLFBO_bind f tgt w =
     (let f1 = f\<lparr>GLFBO.target := tgt\<rparr>;
          w1 = call (BindFramebuffer (GLFBO.target f1) (handle f1)) w
      in (f1, w1))"

definition GLFBO_unbind :: "GLFBO \<Rightarrow> world \<Rightarrow> GLFBO \<times> world" where
  "GLFBO_unbind f w =
     (let w1 = call (BindFramebuffer (GLFBO.target f) 0) w;
          f1 = f\<lparr>GLFBO.target := 0\<rparr>
      in (f1, w1))"

subsection \<open>GLSLShader\<close>

type_synonym GLSLShader = GLHandle

definition GLSLShader_compile ::
  "query_enums \<Rightarrow> driver \<Rightarrow> GLSLShader \<Rightarrow> world \<Rightarrow> bool \<times> world" where
  "GLSLShader_compile q d s w =
     (let w1 = call (CompileShader (handle s)) w;
          (status, w2) = get_iv d (GetShaderiv (handle s) (GL_COMPILE_STATUS q)) w1
      in (status \<noteq> GL_FALSE q, w2))"

text \<open>
  The result is the \<^verbatim>\<open>std::unique_ptr<char[]>\<close>: \<open>None\<close> when it holds no array, else the
  text the driver wrote into the array. \<^verbatim>\<open>logLength\<close> is an \<^verbatim>\<open>int\<close>, compared signed;
  the cast to \<^verbatim>\<open>size_t\<close> is taken only of a positive value and keeps it.
\<close>

definition GLSLShader_getLog ::
  "query_enums \<Rightarrow> driver \<Rightarrow> GLSLShader \<Rightarrow> world \<Rightarrow> string option \<times> world" where
  "GLSLShader_getLog q d s w =
     (let (logLength, w1) = get_iv d (GetShaderiv (handle s) (GL_INFO_LOG_LENGTH q)) w
      in if 0 <s logLength then
           (let w2 = new_char_array (nat (sint logLength)) w1;
                (text, w3) = get_info_log d (GetShaderInfoLog (handle s) logLength) w2
            in (Some text, w3))
         else (None, w1))"

definition GLSLShader_ctor ::
  "object_enums \<Rightarrow> query_enums \<Rightarrow> driver \<Rightarrow> GLenum \<Rightarrow> string \<Rightarrow> string \<Rightarrow> world
     \<Rightarrow> GLSLShader \<times> world" where
  "GLSLShader_ctor k q d type name code w =
     (let (h, w1) = gen_name d (CreateShader type) w;
          this = \<lparr>handle = h\<rparr>;
          w2 = call (ObjectLabel (GL_SHADER k) h (of_nat (length name)) name) w1;
          w3 = call (ShaderSource h 1 code) w2;
          (ok, w4) = GLSLShader_compile q d this w3;
          w5 = (if \<not> ok then
                  (let (log, w') = GLSLShader_getLog q d this w4 in printf_LOG log w')
                else w4)
      in (this, w5))"

subsection \<open>GLSLProgram\<close>

type_synonym GLSLProgram = GLHandle

definition GLSLProgram_use :: "GLSLProgram \<Rightarrow> world \<Rightarrow> GLSLProgram \<times> world" where
  "GLSLProgram_use p w = (p, call (UseProgram (handle p)) w)"

definition GLSLProgram_link ::
  "query_enums \<Rightarrow> driver \<Rightarrow> GLSLProgram \<Rightarrow> world \<Rightarrow> bool \<times> world" where
  "GLSLProgram_link q d p w =
     (let w1 = call (LinkProgram (handle p)) w;
          w2 = call (ValidateProgram (handle p)) w1;
          (status, w3) = get_iv d (GetProgramiv (handle p) (GL_LINK_STATUS q)) w2
      in (status \<noteq> 0, w3))"

definition GLSLProgram_getLog ::
  "query_enums \<Rightarrow> driver \<Rightarrow> GLSLProgram \<Rightarrow> world \<Rightarrow> string option \<times> world" where
  "GLSLProgram_getLog q d p w =
     (let (logLength, w1) = get_iv d (GetProgramiv (handle p) (GL_INFO_LOG_LENGTH q)) w
      in if 0 <s logLength then
           (let w2 = new_char_array (nat (sint logLength)) w1;
                (text, w3) = get_info_log d (GetProgramInfoLog (handle p) logLength) w2
            in (Some text, w3))
         else (None, w1))"

text \<open>
  The two range-for loops of the constructor. The list holds the shaders the
  \<^verbatim>\<open>GLSLShader*\<close> elements point to; \<^verbatim>\<open>*shader\<close> converts to the shader's handle.
\<close>

fun attach_loop :: "GLuint \<Rightarrow> GLSLShader list \<Rightarrow> world \<Rightarrow> world" where
  "attach_loop h [] w = w"
| "attach_loop h (shader # shaders) w =
     attach_loop h shaders (call (AttachShader h (handle shader)) w)"

fun detach_loop :: "GLuint \<Rightarrow> GLSLShader list \<Rightarrow> world \<Rightarrow> world" where
  "detach_loop h [] w = w"
| "detach_loop h (shader # shaders) w =
     detach_loop h shaders (call (DetachShader h (handle shader)) w)"

definition GLSLProgram_ctor ::
  "object_enums \<Rightarrow> query_enums \<Rightarrow> driver \<Rightarrow> string \<Rightarrow> GLSLShader list \<Rightarrow> world
     \<Rightarrow> GLSLProgram \<times> world" where
  "GLSLProgram_ctor k q d name shaders w =
     (let (h, w1) = gen_name d CreateProgram w;
          this = \<lparr>handle = h\<rparr>;
          w2 = call (ObjectLabel (GL_PROGRAM k) h (of_nat (length name)) name) w1;
          w3 = attach_loop h shaders w2;
          (ok, w4) = GLSLProgram_link q d this w3;
          w5 = (if \<not> ok then
                  (let (log, w') = GLSLProgram_getLog q d this w4 in printf_LOG log w')
                else snd (GLSLProgram_use this w4));
          w6 = detach_loop h shaders w5
      in (this, w6))"

section \<open>Debug output\<close>

subsection \<open>The string tables\<close>

text \<open>
  Each \<^verbatim>\<open>switch\<close> is the chain of comparisons in the order of its \<^verbatim>\<open>case\<close> labels; the
  result, a pointer to a string literal in every branch, is the literal's text.
\<close>

definition debugSourceString :: "source_enums \<Rightarrow> GLenum \<Rightarrow> string" where
  "debugSourceString se source =
     (if source = GL_DEBUG_SOURCE_API se then ''API''
      else if source = GL_DEBUG_SOURCE_WINDOW_SYSTEM se then ''Window System''
      else if source = GL_DEBUG_SOURCE_SHADER_COMPILER se then ''Shader Compiler''
      else if source = GL_DEBUG_SOURCE_THIRD_PARTY se then ''Third Party''
      else if source = GL_DEBUG_SOURCE_APPLICATION se then ''Application''
      else if source = GL_DEBUG_SOURCE_OTHER se then ''Other''
      else ''UNKNOWN'')"

definition debugTypeString :: "type_enums \<Rightarrow> GLenum \<Rightarrow> string" where
  "debugTypeString te type =
     (if type = GL_DEBUG_TYPE_ERROR te then ''Error''
      else if type = GL_DEBUG_TYPE_DEPRECATED_BEHAVIOR te then ''Deprecated''
      else if type = GL_DEBUG_TYPE_UNDEFINED_BEHAVIOR te then ''Undefined''
      else if type = GL_DEBUG_TYPE_PORTABILITY te then ''Portability''
      else if type = GL_DEBUG_TYPE_PERFORMANCE te then ''Performance''
      else if type = GL_DEBUG_TYPE_OTHER te then ''Other''
      else if type = GL_DEBUG_TYPE_MARKER te then ''Marker''
      else ''UNKNOWN'')"

definition debugSeverityString :: "severity_enums \<Rightarrow> GLenum \<Rightarrow> string" where
  "debugSeverityString ve severity =
     (if severity = GL_DEBUG_SEVERITY_HIGH ve then ''High''
      else if severity = GL_DEBUG_SEVERITY_MEDIUM ve then ''Medium''
      else if severity = GL_DEBUG_SEVERITY_LOW ve then ''Low''
      else if severity = GL_DEBUG_SEVERITY_NOTIFICATION ve then ''Notification''
      else ''UNKNOWN'')"

subsection \<open>The callback installed by setupStderrDebugCallback\<close>

text \<open>
  The conversion \<^verbatim>\<open>%.*s\<close> of \<^verbatim>\<open>fprintf\<close>, given the precision and the C string: at most
  that many characters of the string, and the whole string when the precision is
  negative (the C standard takes a negative precision as omitted).
\<close>

definition precision_s :: "GLsizei \<Rightarrow> string \<Rightarrow> string" where
  "precision_s n s = (if sint n < 0 then s else take (nat (sint n)) s)"

text \<open>How a run of the callback ends: it returns to the driver, or \<^verbatim>\<open>exit\<close> ends the process.\<close>

datatype outcome = Returns | Exits int

definition debug_callback ::
  "source_enums \<Rightarrow> type_enums \<Rightarrow> severity_enums
     \<Rightarrow> GLenum \<Rightarrow> GLenum \<Rightarrow> GLuint \<Rightarrow> GLenum \<Rightarrow> GLsizei \<Rightarrow> string \<Rightarrow> world \<Rightarrow> outcome \<times> world" where
  "debug_callback se te ve source type ident severity len message w =
     (let w1 = fprintf_stderr
                 (''['' @ debugSourceString se source @ ''] '' @ debugTypeString te type
                    @ '' ('' @ debugSeverityString ve severity @ ''): ''
                    @ precision_s len message @ [CHR 0x0A]) w
      in if type = GL_DEBUG_TYPE_ERROR te \<or> severity = GL_DEBUG_SEVERITY_HIGH ve
         then (Exits 1, w1)
         else (Returns, w1))"

subsection \<open>GLScopedDebugMarker\<close>

text \<open>
  The two bodies are chosen by the preprocessor: \<open>ndebug\<close> says whether \<^verbatim>\<open>NDEBUG\<close> is
  defined in the build. The object has no fields, so constructor and destructor are
  functions of the world alone.
\<close>

definition GLScopedDebugMarker_ctor :: "bool \<Rightarrow> source_enums \<Rightarrow> string \<Rightarrow> world \<Rightarrow> world" where
  "GLScopedDebugMarker_ctor ndebug se msg w =
     (if \<not> ndebug then call (PushDebugGroup (GL_DEBUG_SOURCE_APPLICATION se) 0 (- 1) msg) w
      else w)"

definition GLScopedDebugMarker_dtor :: "bool \<Rightarrow> world \<Rightarrow> world" where
  "GLScopedDebugMarker_dtor ndebug w = (if \<not> ndebug then call PopDebugGroup w else w)"

text \<open>A lexical scope that declares a marker first: constructor, the scope's body, destructor.\<close>

definition marked_scope :: "bool \<Rightarrow> source_enums \<Rightarrow> string \<Rightarrow> (world \<Rightarrow> world) \<Rightarrow> world \<Rightarrow> world" where
  "marked_scope ndebug se msg body w =
     GLScopedDebugMarker_dtor ndebug (body (GLScopedDebugMarker_ctor ndebug se msg w))"

section \<open>Vocabulary of the statements\<close>

text \<open>
  \<open>binds h c\<close>: the call \<open>c\<close> makes the object named \<open>h\<close> current (a bind of a vertex
  array, buffer, texture or framebuffer, or the activation of a program).
\<close>

fun binds :: "GLuint \<Rightarrow> glcall \<Rightarrow> bool" where
  "binds h (BindVertexArray x) = (x = h)"
| "binds h (BindBuffer t x) = (x = h)"
| "binds h (BindTexture t x) = (x = h)"
| "binds h (BindFramebuffer t x) = (x = h)"
| "binds h (UseProgram x) = (x = h)"
| "binds h _ = False"

text \<open>\<open>is_storage c\<close>: the call \<open>c\<close> is one of the three storage allocations.\<close>

fun is_storage :: "glcall \<Rightarrow> bool" where
  "is_storage (TexStorage1D t l f x) = True"
| "is_storage (TexStorage2D t l f x y) = True"
| "is_storage (TexStorage3D t l f x y z) = True"
| "is_storage _ = False"

text \<open>The calls a piece of code added to the history: those after the ones of \<open>w\<close>.\<close>

definition issued :: "world \<Rightarrow> world \<Rightarrow> glcall list" where
  "issued w w' = drop (length (calls w)) (calls w')"

text \<open>
  Concrete surroundings for evaluating the statements: a world in which nothing has
  happened yet, and three drivers that hand out the name 7. The first answers every
  query with 1, the second every query with 0 (failure, and an empty log), the third
  reports failure and a log of five bytes.
\<close>

definition fresh_world :: world where
  "fresh_world = \<lparr>calls = [], stdout_log = [], stderr_text = [], allocs = []\<rparr>"

definition accepting_driver :: driver where
  "accepting_driver =
     \<lparr>name_reply = (\<lambda>hist. 7), iv_reply = (\<lambda>hist. 1), log_reply = (\<lambda>hist. []),
      ptr_reply = (\<lambda>hist. 4096)\<rparr>"

definition silent_driver :: driver where
  "silent_driver =
     \<lparr>name_reply = (\<lambda>hist. 7), iv_reply = (\<lambda>hist. 0), log_reply = (\<lambda>hist. []),
      ptr_reply = (\<lambda>hist. 4096)\<rparr>"

definition rejecting_driver :: driver where
  "rejecting_driver =
     \<lparr>name_reply = (\<lambda>hist. 7),
      iv_reply = (\<lambda>hist. if last hist = GetProgramiv 7 (GL_INFO_LOG_LENGTH khronos_queries)
                             \<or> last hist = GetShaderiv 7 (GL_INFO_LOG_LENGTH khronos_queries)
                          then 5 else 0),
      log_reply = (\<lambda>hist. ''oops''),
      ptr_reply = (\<lambda>hist. 4096)\<rparr>"

section \<open>How the primitive steps change the world\<close>

lemma call_fields [simp]:
  "calls (call c w) = calls w @ [c]"
  "stdout_log (call c w) = stdout_log w"
  "stderr_text (call c w) = stderr_text w"
  "allocs (call c w) = allocs w"
  by (simp_all add: call_def)

lemma printf_LOG_fields [simp]:
  "calls (printf_LOG p w) = calls w"
  "stdout_log (printf_LOG p w) = stdout_log w @ [p]"
  "stderr_text (printf_LOG p w) = stderr_text w"
  "allocs (printf_LOG p w) = allocs w"
  by (simp_all add: printf_LOG_def)

lemma new_char_array_fields [simp]:
  "calls (new_char_array n w) = calls w"
  "stdout_log (new_char_array n w) = stdout_log w"
  "stderr_text (new_char_array n w) = stderr_text w"
  "allocs (new_char_array n w) = allocs w @ [n]"
  by (simp_all add: new_char_array_def)

lemma fprintf_stderr_fields [simp]:
  "calls (fprintf_stderr t w) = calls w"
  "stdout_log (fprintf_stderr t w) = stdout_log w"
  "stderr_text (fprintf_stderr t w) = stderr_text w @ [t]"
  "allocs (fprintf_stderr t w) = allocs w"
  by (simp_all add: fprintf_stderr_def)

lemma issued_append [simp]: "calls w' = calls w @ cs \<Longrightarrow> issued w w' = cs"
  by (simp add: issued_def)

lemma attach_loop_fields [simp]:
  "calls (attach_loop h shaders w) = calls w @ map (\<lambda>s. AttachShader h (handle s)) shaders"
  "stdout_log (attach_loop h shaders w) = stdout_log w"
  "allocs (attach_loop h shaders w) = allocs w"
  by (induction shaders arbitrary: w) simp_all

lemma detach_loop_fields [simp]:
  "calls (detach_loop h shaders w) = calls w @ map (\<lambda>s. DetachShader h (handle s)) shaders"
  "stdout_log (detach_loop h shaders w) = stdout_log w"
  "allocs (detach_loop h shaders w) = allocs w"
  by (induction shaders arbitrary: w) simp_all

section \<open>GLSLProgram: linking, the log, the constructor\<close>

lemma GLSLProgram_link_result:
  "GLSLProgram_link q d p w =
     (iv_reply d (calls w @ [LinkProgram (handle p), ValidateProgram (handle p),
                             GetProgramiv (handle p) (GL_LINK_STATUS q)]) \<noteq> 0,
      call (GetProgramiv (handle p) (GL_LINK_STATUS q))
        (call (ValidateProgram (handle p)) (call (LinkProgram (handle p)) w)))"
  by (simp add: GLSLProgram_link_def get_iv_def)

lemma GLSLProgram_getLog_fst:
  "fst (GLSLProgram_getLog q d p w) =
     (let n = iv_reply d (calls w @ [GetProgramiv (handle p) (GL_INFO_LOG_LENGTH q)])
      in if 0 <s n
         then Some (log_reply d (calls w @ [GetProgramiv (handle p) (GL_INFO_LOG_LENGTH q),
                                            GetProgramInfoLog (handle p) n]))
         else None)"
  by (simp add: GLSLProgram_getLog_def get_iv_def get_info_log_def Let_def)

lemma GLSLProgram_getLog_calls:
  "calls (snd (GLSLProgram_getLog q d p w)) =
     (let n = iv_reply d (calls w @ [GetProgramiv (handle p) (GL_INFO_LOG_LENGTH q)])
      in calls w @ [GetProgramiv (handle p) (GL_INFO_LOG_LENGTH q)]
           @ (if 0 <s n then [GetProgramInfoLog (handle p) n] else []))"
  by (simp add: GLSLProgram_getLog_def get_iv_def get_info_log_def Let_def)

lemma GLSLProgram_getLog_allocs:
  "allocs (snd (GLSLProgram_getLog q d p w)) =
     (let n = iv_reply d (calls w @ [GetProgramiv (handle p) (GL_INFO_LOG_LENGTH q)])
      in allocs w @ (if 0 <s n then [nat (sint n)] else []))"
  by (simp add: GLSLProgram_getLog_def get_iv_def get_info_log_def Let_def)

lemma GLSLProgram_getLog_stdout:
  "stdout_log (snd (GLSLProgram_getLog q d p w)) = stdout_log w"
  by (simp add: GLSLProgram_getLog_def get_iv_def get_info_log_def Let_def)

lemma GLSLProgram_ctor_handle:
  "handle (fst (GLSLProgram_ctor k q d name shaders w)) = name_reply d (calls w @ [CreateProgram])"
  by (simp add: GLSLProgram_ctor_def gen_name_def Let_def split_def)

lemma GLSLProgram_ctor_calls:
  "calls (snd (GLSLProgram_ctor k q d name shaders w)) =
     (let h = name_reply d (calls w @ [CreateProgram]);
          linked = calls w @ [CreateProgram,
                              ObjectLabel (GL_PROGRAM k) h (of_nat (length name)) name]
                     @ map (\<lambda>s. AttachShader h (handle s)) shaders
                     @ [LinkProgram h, ValidateProgram h, GetProgramiv h (GL_LINK_STATUS q)];
          n = iv_reply d (linked @ [GetProgramiv h (GL_INFO_LOG_LENGTH q)])
      in linked
         @ (if iv_reply d linked \<noteq> 0 then [UseProgram h]
            else [GetProgramiv h (GL_INFO_LOG_LENGTH q)]
                 @ (if 0 <s n then [GetProgramInfoLog h n] else []))
         @ map (\<lambda>s. DetachShader h (handle s)) shaders)"
  by (simp add: GLSLProgram_ctor_def gen_name_def GLSLProgram_link_result GLSLProgram_use_def
      GLSLProgram_getLog_calls Let_def split_def)

lemma GLSLProgram_ctor_stdout:
  "stdout_log (snd (GLSLProgram_ctor k q d name shaders w)) =
     (let h = name_reply d (calls w @ [CreateProgram]);
          linked = calls w @ [CreateProgram,
                              ObjectLabel (GL_PROGRAM k) h (of_nat (length name)) name]
                     @ map (\<lambda>s. AttachShader h (handle s)) shaders
                     @ [LinkProgram h, ValidateProgram h, GetProgramiv h (GL_LINK_STATUS q)];
          n = iv_reply d (linked @ [GetProgramiv h (GL_INFO_LOG_LENGTH q)])
      in stdout_log w
         @ (if iv_reply d linked \<noteq> 0 then []
            else [if 0 <s n
                  then Some (log_reply d (linked @ [GetProgramiv h (GL_INFO_LOG_LENGTH q),
                                                    GetProgramInfoLog h n]))
                  else None]))"
  by (simp add: GLSLProgram_ctor_def gen_name_def GLSLProgram_link_result GLSLProgram_use_def
      GLSLProgram_getLog_fst GLSLProgram_getLog_stdout Let_def split_def)

section \<open>The constructors and the shader log, step by step\<close>

lemma GLSLShader_compile_result:
  "GLSLShader_compile q d s w =
     (iv_reply d (calls w @ [CompileShader (handle s),
                             GetShaderiv (handle s) (GL_COMPILE_STATUS q)]) \<noteq> GL_FALSE q,
      call (GetShaderiv (handle s) (GL_COMPILE_STATUS q)) (call (CompileShader (handle s)) w))"
  by (simp add: GLSLShader_compile_def get_iv_def)

lemma GLSLShader_getLog_fst:
  "fst (GLSLShader_getLog q d s w) =
     (let n = iv_reply d (calls w @ [GetShaderiv (handle s) (GL_INFO_LOG_LENGTH q)])
      in if 0 <s n
         then Some (log_reply d (calls w @ [GetShaderiv (handle s) (GL_INFO_LOG_LENGTH q),
                                            GetShaderInfoLog (handle s) n]))
         else None)"
  by (simp add: GLSLShader_getLog_def get_iv_def get_info_log_def Let_def)

lemma GLSLShader_getLog_calls:
  "calls (snd (GLSLShader_getLog q d s w)) =
     (let n = iv_reply d (calls w @ [GetShaderiv (handle s) (GL_INFO_LOG_LENGTH q)])
      in calls w @ [GetShaderiv (handle s) (GL_INFO_LOG_LENGTH q)]
           @ (if 0 <s n then [GetShaderInfoLog (handle s) n] else []))"
  by (simp add: GLSLShader_getLog_def get_iv_def get_info_log_def Let_def)

lemma GLSLShader_getLog_allocs:
  "allocs (snd (GLSLShader_getLog q d s w)) =
     (let n = iv_reply d (calls w @ [GetShaderiv (handle s) (GL_INFO_LOG_LENGTH q)])
      in allocs w @ (if 0 <s n then [nat (sint n)] else []))"
  by (simp add: GLSLShader_getLog_def get_iv_def get_info_log_def Let_def)

lemma GLSLShader_ctor_handle:
  "handle (fst (GLSLShader_ctor k q d type name code w)) =
     name_reply d (calls w @ [CreateShader type])"
  by (simp add: GLSLShader_ctor_def gen_name_def Let_def split_def)

lemma GLSLShader_ctor_issued:
  "issued w (snd (GLSLShader_ctor k q d type name code w)) =
     (let h = name_reply d (calls w @ [CreateShader type]);
          compiled = calls w @ [CreateShader type,
                                ObjectLabel (GL_SHADER k) h (of_nat (length name)) name,
                                ShaderSource h 1 code, CompileShader h,
                                GetShaderiv h (GL_COMPILE_STATUS q)];
          n = iv_reply d (compiled @ [GetShaderiv h (GL_INFO_LOG_LENGTH q)])
      in [CreateShader type, ObjectLabel (GL_SHADER k) h (of_nat (length name)) name,
          ShaderSource h 1 code, CompileShader h, GetShaderiv h (GL_COMPILE_STATUS q)]
         @ (if iv_reply d compiled \<noteq> GL_FALSE q then []
            else [GetShaderiv h (GL_INFO_LOG_LENGTH q)]
                 @ (if 0 <s n then [GetShaderInfoLog h n] else [])))"
  by (simp add: issued_def GLSLShader_ctor_def gen_name_def GLSLShader_compile_result
      GLSLShader_getLog_calls Let_def split_def)

lemma GLSLProgram_ctor_issued:
  "issued w (snd (GLSLProgram_ctor k q d name shaders w)) =
     (let h = name_reply d (calls w @ [CreateProgram]);
          linked = calls w @ [CreateProgram,
                              ObjectLabel (GL_PROGRAM k) h (of_nat (length name)) name]
                     @ map (\<lambda>s. AttachShader h (handle s)) shaders
                     @ [LinkProgram h, ValidateProgram h, GetProgramiv h (GL_LINK_STATUS q)];
          n = iv_reply d (linked @ [GetProgramiv h (GL_INFO_LOG_LENGTH q)])
      in [CreateProgram, ObjectLabel (GL_PROGRAM k) h (of_nat (length name)) name]
         @ map (\<lambda>s. AttachShader h (handle s)) shaders
         @ [LinkProgram h, ValidateProgram h, GetProgramiv h (GL_LINK_STATUS q)]
         @ (if iv_reply d linked \<noteq> 0 then [UseProgram h]
            else [GetProgramiv h (GL_INFO_LOG_LENGTH q)]
                 @ (if 0 <s n then [GetProgramInfoLog h n] else []))
         @ map (\<lambda>s. DetachShader h (handle s)) shaders)"
  by (simp add: issued_def GLSLProgram_ctor_calls Let_def)

lemma VAO_ctor_result:
  "VAO_ctor k d name w =
     (let h = name_reply d (calls w @ [GenVertexArrays 1])
      in (\<lparr>handle = h\<rparr>,
          call (ObjectLabel (GL_VERTEX_ARRAY k) h (of_nat (length name)) name)
            (call (BindVertexArray h) (call (GenVertexArrays 1) w))))"
  by (simp add: VAO_ctor_def gen_name_def Let_def)

lemma GLBuffer_ctor_result:
  "GLBuffer_ctor k d tgt name w =
     (let h = name_reply d (calls w @ [GenBuffers 1])
      in (\<lparr>handle = h, GLBuffer.target = tgt\<rparr>,
          call (ObjectLabel (GL_BUFFER k) h (of_nat (length name)) name)
            (call (BindBuffer tgt h) (call (GenBuffers 1) w))))"
  by (simp add: GLBuffer_ctor_def gen_name_def Let_def)

lemma GLTexture_ctor_handle:
  "fst (GLTexture_ctor k d tgt name levels fmt width height depth w) =
     \<lparr>handle = name_reply d (calls w @ [GenTextures 1]), GLTexture.target = tgt\<rparr>"
  by (simp add: GLTexture_ctor_def gen_name_def Let_def)

lemma GLTexture_ctor_issued:
  "issued w (snd (GLTexture_ctor k d tgt name levels fmt width height depth w)) =
     (let h = name_reply d (calls w @ [GenTextures 1])
      in [GenTextures 1, BindTexture tgt h,
          ObjectLabel (GL_TEXTURE k) h (of_nat (length name)) name,
          if depth \<noteq> 1 then TexStorage3D tgt levels fmt width height depth
          else if height \<noteq> 1 then TexStorage2D tgt levels fmt width height
          else TexStorage1D tgt levels fmt width])"
  by (simp add: issued_def GLTexture_ctor_def gen_name_def Let_def)

lemma GLFBO_ctor_handle:
  "fst (GLFBO_ctor k d tgt name levels fmt width height depth w) =
     \<lparr>handle = name_reply d (calls w @ [GenFramebuffers 1]), GLFBO.target = tgt\<rparr>"
  by (simp add: GLFBO_ctor_def gen_name_def Let_def)

lemma GLFBO_ctor_issued:
  "issued w (snd (GLFBO_ctor k d tgt name levels fmt width height depth w)) =
     (let h = name_reply d (calls w @ [GenFramebuffers 1])
      in [GenFramebuffers 1, BindFramebuffer tgt h,
          ObjectLabel (GL_FRAMEBUFFER k) h (of_nat (length name)) name,
          if depth \<noteq> 1 then TexStorage3D tgt levels fmt width height depth
          else if height \<noteq> 1 then TexStorage2D tgt levels fmt width height
          else TexStorage1D tgt levels fmt width])"
  by (simp add: issued_def GLFBO_ctor_def gen_name_def Let_def)

lemma binds_attach [simp]: "filter (binds x) (map (\<lambda>s. AttachShader h (handle s)) shaders) = []"
  by (induction shaders) simp_all

lemma binds_detach [simp]: "filter (binds x) (map (\<lambda>s. DetachShader h (handle s)) shaders) = []"
  by (induction shaders) simp_all

lemma GLSLShader_ctor_no_bind:
  "filter (binds x) (issued w (snd (GLSLShader_ctor k q d type name code w))) = []"
  by (simp add: GLSLShader_ctor_issued Let_def)

lemma GLSLProgram_ctor_binds:
  "filter (binds x) (issued w (snd (GLSLProgram_ctor k q d name shaders w))) =
     (let h = name_reply d (calls w @ [CreateProgram]);
          linked = calls w @ [CreateProgram,
                              ObjectLabel (GL_PROGRAM k) h (of_nat (length name)) name]
                     @ map (\<lambda>s. AttachShader h (handle s)) shaders
                     @ [LinkProgram h, ValidateProgram h, GetProgramiv h (GL_LINK_STATUS q)]
      in if iv_reply d linked \<noteq> 0 \<and> x = h then [UseProgram h] else [])"
  by (simp add: GLSLProgram_ctor_issued Let_def)

text \<open>What each constructor allocates, binds and labels.\<close>

lemma VAO_ctor_binds:
  "(let h = name_reply d (calls w @ [GenVertexArrays 1]); (v, w') = VAO_ctor k d name w
    in handle v = h
       \<and> issued w w' = [GenVertexArrays 1, BindVertexArray h,
                         ObjectLabel (GL_VERTEX_ARRAY k) h (of_nat (length name)) name])"
  by (simp add: VAO_ctor_result Let_def)

lemma GLBuffer_ctor_binds:
  "(let h = name_reply d (calls w @ [GenBuffers 1]); (b, w') = GLBuffer_ctor k d tgt name w
    in handle b = h \<and> GLBuffer.target b = tgt
       \<and> issued w w' = [GenBuffers 1, BindBuffer tgt h,
                         ObjectLabel (GL_BUFFER k) h (of_nat (length name)) name])"
  by (simp add: GLBuffer_ctor_result Let_def)

lemma GLTexture_ctor_binds:
  "(let h = name_reply d (calls w @ [GenTextures 1]);
        (t, w') = GLTexture_ctor k d tgt name levels fmt width height depth w
    in handle t = h \<and> GLTexture.target t = tgt
       \<and> take 3 (issued w w') = [GenTextures 1, BindTexture tgt h,
                                  ObjectLabel (GL_TEXTURE k) h (of_nat (length name)) name])"
  by (simp add: split_def Let_def GLTexture_ctor_handle GLTexture_ctor_issued)

lemma GLFBO_ctor_binds:
  "(let h = name_reply d (calls w @ [GenFramebuffers 1]);
        (f, w') = GLFBO_ctor k d tgt name levels fmt width height depth w
    in handle f = h \<and> GLFBO.target f = tgt
       \<and> take 3 (issued w w') = [GenFramebuffers 1, BindFramebuffer tgt h,
                                  ObjectLabel (GL_FRAMEBUFFER k) h (of_nat (length name)) name])"
  by (simp add: split_def Let_def GLFBO_ctor_handle GLFBO_ctor_issued)

lemma GLSLShader_ctor_binds:
  "(let h = name_reply d (calls w @ [CreateShader type]);
        (s, w') = GLSLShader_ctor k q d type name code w
    in handle s = h
       \<and> take 2 (issued w w')
           = [CreateShader type, ObjectLabel (GL_SHADER k) h (of_nat (length name)) name]
       \<and> filter (binds x) (issued w w') = [])"
  by (simp add: split_def Let_def GLSLShader_ctor_handle GLSLShader_ctor_no_bind GLSLShader_ctor_issued)

lemma GLSLProgram_ctor_activates:
  "(let h = name_reply d (calls w @ [CreateProgram]);
        linked = calls w @ [CreateProgram,
                            ObjectLabel (GL_PROGRAM k) h (of_nat (length name)) name]
                   @ map (\<lambda>s. AttachShader h (handle s)) shaders
                   @ [LinkProgram h, ValidateProgram h, GetProgramiv h (GL_LINK_STATUS q)];
        (p, w') = GLSLProgram_ctor k q d name shaders w
    in handle p = h
       \<and> take 2 (issued w w')
           = [CreateProgram, ObjectLabel (GL_PROGRAM k) h (of_nat (length name)) name]
       \<and> filter (binds x) (issued w w')
           = (if iv_reply d linked \<noteq> 0 \<and> x = h then [UseProgram h] else []))"
  by (simp add: split_def Let_def GLSLProgram_ctor_handle GLSLProgram_ctor_binds GLSLProgram_ctor_issued)

lemma GLBuffer_ctor_issued:
  "issued w (snd (GLBuffer_ctor k d tgt name w)) =
     [GenBuffers 1, BindBuffer tgt (name_reply d (calls w @ [GenBuffers 1])),
      ObjectLabel (GL_BUFFER k) (name_reply d (calls w @ [GenBuffers 1]))
        (of_nat (length name)) name]"
  by (simp add: GLBuffer_ctor_result Let_def)

text \<open>The two log fetches.\<close>

lemma GLSLShader_getLog_zero:
  "(let c = GetShaderiv (handle s) (GL_INFO_LOG_LENGTH q);
        n = iv_reply d (calls w @ [c]);
        (log, w') = GLSLShader_getLog q d s w
    in (n = 0 \<longrightarrow> log = None \<and> calls w' = calls w @ [c] \<and> allocs w' = allocs w)
       \<and> (log = None) = (\<not> 0 <s n)
       \<and> calls w' = calls w @ [c] @ (if 0 <s n then [GetShaderInfoLog (handle s) n] else [])
       \<and> allocs w' = allocs w @ (if 0 <s n then [nat (sint n)] else []))"
  by (simp add: split_def Let_def GLSLShader_getLog_fst GLSLShader_getLog_calls
      GLSLShader_getLog_allocs)

lemma GLSLProgram_getLog_zero:
  "(let c = GetProgramiv (handle p) (GL_INFO_LOG_LENGTH q);
        n = iv_reply d (calls w @ [c]);
        (log, w') = GLSLProgram_getLog q d p w
    in (n = 0 \<longrightarrow> log = None \<and> calls w' = calls w @ [c] \<and> allocs w' = allocs w)
       \<and> (log = None) = (\<not> 0 <s n)
       \<and> calls w' = calls w @ [c] @ (if 0 <s n then [GetProgramInfoLog (handle p) n] else [])
       \<and> allocs w' = allocs w @ (if 0 <s n then [nat (sint n)] else []))"
  by (simp add: split_def Let_def GLSLProgram_getLog_fst GLSLProgram_getLog_calls
      GLSLProgram_getLog_allocs)

section \<open>The debug strings and the precision conversion\<close>

lemma debugSourceString_table:
  assumes "distinct [GL_DEBUG_SOURCE_API se, GL_DEBUG_SOURCE_WINDOW_SYSTEM se,
                     GL_DEBUG_SOURCE_SHADER_COMPILER se, GL_DEBUG_SOURCE_THIRD_PARTY se,
                     GL_DEBUG_SOURCE_APPLICATION se, GL_DEBUG_SOURCE_OTHER se]"
  shows "map (debugSourceString se)
           [GL_DEBUG_SOURCE_API se, GL_DEBUG_SOURCE_WINDOW_SYSTEM se,
            GL_DEBUG_SOURCE_SHADER_COMPILER se, GL_DEBUG_SOURCE_THIRD_PARTY se,
            GL_DEBUG_SOURCE_APPLICATION se, GL_DEBUG_SOURCE_OTHER se]
         = [''API'', ''Window System'', ''Shader Compiler'', ''Third Party'',
            ''Application'', ''Other'']"
  using assms by (auto simp add: debugSourceString_def)

lemma debugSourceString_default:
  "source \<notin> set [GL_DEBUG_SOURCE_API se, GL_DEBUG_SOURCE_WINDOW_SYSTEM se,
                    GL_DEBUG_SOURCE_SHADER_COMPILER se, GL_DEBUG_SOURCE_THIRD_PARTY se,
                    GL_DEBUG_SOURCE_APPLICATION se, GL_DEBUG_SOURCE_OTHER se]
   \<longrightarrow> debugSourceString se source = ''UNKNOWN''"
  by (simp add: debugSourceString_def)

lemma debugSourceString_literal:
  "debugSourceString se source
     \<in> set [''API'', ''Window System'', ''Shader Compiler'', ''Third Party'',
             ''Application'', ''Other'', ''UNKNOWN'']"
  by (simp add: debugSourceString_def)

lemma debugTypeString_table:
  assumes "distinct [GL_DEBUG_TYPE_ERROR te, GL_DEBUG_TYPE_DEPRECATED_BEHAVIOR te,
                     GL_DEBUG_TYPE_UNDEFINED_BEHAVIOR te, GL_DEBUG_TYPE_PORTABILITY te,
                     GL_DEBUG_TYPE_PERFORMANCE te, GL_DEBUG_TYPE_OTHER te,
                     GL_DEBUG_TYPE_MARKER te]"
  shows "map (debugTypeString te)
           [GL_DEBUG_TYPE_ERROR te, GL_DEBUG_TYPE_DEPRECATED_BEHAVIOR te,
            GL_DEBUG_TYPE_UNDEFINED_BEHAVIOR te, GL_DEBUG_TYPE_PORTABILITY te,
            GL_DEBUG_TYPE_PERFORMANCE te, GL_DEBUG_TYPE_OTHER te, GL_DEBUG_TYPE_MARKER te]
         = [''Error'', ''Deprecated'', ''Undefined'', ''Portability'', ''Performance'',
            ''Other'', ''Marker'']"
  using assms by (auto simp add: debugTypeString_def)

lemma debugTypeString_default:
  "type \<notin> set [GL_DEBUG_TYPE_ERROR te, GL_DEBUG_TYPE_DEPRECATED_BEHAVIOR te,
                  GL_DEBUG_TYPE_UNDEFINED_BEHAVIOR te, GL_DEBUG_TYPE_PORTABILITY te,
                  GL_DEBUG_TYPE_PERFORMANCE te, GL_DEBUG_TYPE_OTHER te,
                  GL_DEBUG_TYPE_MARKER te]
   \<longrightarrow> debugTypeString te type = ''UNKNOWN''"
  by (simp add: debugTypeString_def)

lemma debugTypeString_literal:
  "debugTypeString te type
     \<in> set [''Error'', ''Deprecated'', ''Undefined'', ''Portability'', ''Performance'',
             ''Other'', ''Marker'', ''UNKNOWN'']"
  by (simp add: debugTypeString_def)

lemma debugSeverityString_table:
  assumes "distinct [GL_DEBUG_SEVERITY_HIGH ve, GL_DEBUG_SEVERITY_MEDIUM ve,
                     GL_DEBUG_SEVERITY_LOW ve, GL_DEBUG_SEVERITY_NOTIFICATION ve]"
  shows "map (debugSeverityString ve)
           [GL_DEBUG_SEVERITY_HIGH ve, GL_DEBUG_SEVERITY_MEDIUM ve,
            GL_DEBUG_SEVERITY_LOW ve, GL_DEBUG_SEVERITY_NOTIFICATION ve]
         = [''High'', ''Medium'', ''Low'', ''Notification'']"
  using assms by (auto simp add: debugSeverityString_def)

lemma debugSeverityString_default:
  "severity \<notin> set [GL_DEBUG_SEVERITY_HIGH ve, GL_DEBUG_SEVERITY_MEDIUM ve,
                      GL_DEBUG_SEVERITY_LOW ve, GL_DEBUG_SEVERITY_NOTIFICATION ve]
   \<longrightarrow> debugSeverityString ve severity = ''UNKNOWN''"
  by (simp add: debugSeverityString_def)

lemma debugSeverityString_literal:
  "debugSeverityString ve severity
     \<in> set [''High'', ''Medium'', ''Low'', ''Notification'', ''UNKNOWN'']"
  by (simp add: debugSeverityString_def)

lemma precision_s_whole:
  "sint len < 0 \<or> int (length message) \<le> sint len \<Longrightarrow> precision_s len message = message"
  by (auto simp add: precision_s_def)

section \<open>The claims\<close>

subsection \<open>C1: the call sequence of GLSLProgram's constructor\<close>

text \<open>
  C1. For every list of shaders, the constructor of \<^verbatim>\<open>GLSLProgram\<close> creates the program,
  labels it, attaches every shader in order, links (and validates and queries the link
  status). When the status is non-zero it activates the program and prints nothing; when
  it is zero it fetches the log and prints it with \<^verbatim>\<open>printf\<close>, and activates nothing. In
  both cases the constructor then detaches every shader it attached, in the same order,
  and these are its last driver calls.
\<close>

theorem GLSLProgram_ctor_sequence:
  "(let h = name_reply d (calls w @ [CreateProgram]);
        attached = calls w @ [CreateProgram,
                              ObjectLabel (GL_PROGRAM k) h (of_nat (length name)) name]
                     @ map (\<lambda>s. AttachShader h (handle s)) shaders;
        linked = attached @ [LinkProgram h, ValidateProgram h,
                             GetProgramiv h (GL_LINK_STATUS q)];
        link_ok = (iv_reply d linked \<noteq> 0);
        n = iv_reply d (linked @ [GetProgramiv h (GL_INFO_LOG_LENGTH q)]);
        detached = map (\<lambda>s. DetachShader h (handle s)) shaders;
        (p, w') = GLSLProgram_ctor k q d name shaders w
    in handle p = h
       \<and> calls w' =
           linked
           @ (if link_ok then [UseProgram h]
              else [GetProgramiv h (GL_INFO_LOG_LENGTH q)]
                   @ (if 0 <s n then [GetProgramInfoLog h n] else []))
           @ detached
       \<and> stdout_log w' =
           stdout_log w
           @ (if link_ok then []
              else [if 0 <s n
                    then Some (log_reply d (linked @ [GetProgramiv h (GL_INFO_LOG_LENGTH q),
                                                      GetProgramInfoLog h n]))
                    else None]))"
proof -
  obtain p w' where r: "GLSLProgram_ctor k q d name shaders w = (p, w')"
    by (cases "GLSLProgram_ctor k q d name shaders w")
  have hp: "handle p = name_reply d (calls w @ [CreateProgram])"
    using GLSLProgram_ctor_handle [of k q d name shaders w] by (simp add: r)
  have cs: "calls w' = calls (snd (GLSLProgram_ctor k q d name shaders w))"
    and so: "stdout_log w' = stdout_log (snd (GLSLProgram_ctor k q d name shaders w))"
    by (simp_all add: r)
  show ?thesis
    unfolding r Let_def prod.case
    apply (intro conjI)
      apply (rule hp)
     apply (simp add: cs GLSLProgram_ctor_calls Let_def)
    apply (simp add: so GLSLProgram_ctor_stdout Let_def)
    done
qed

text \<open>
  A program of two shaders, at a driver that refuses the link and reports a log of five
  bytes, and at a driver that accepts it.
\<close>

theorem GLSLProgram_ctor_sequence_witness:
  "calls (snd (GLSLProgram_ctor khronos_objects khronos_queries rejecting_driver ''prog''
                 [\<lparr>handle = 3\<rparr>, \<lparr>handle = 4\<rparr>] fresh_world))
     = [CreateProgram, ObjectLabel 0x82E2 7 4 ''prog'', AttachShader 7 3, AttachShader 7 4,
        LinkProgram 7, ValidateProgram 7, GetProgramiv 7 0x8B82,
        GetProgramiv 7 0x8B84, GetProgramInfoLog 7 5,
        DetachShader 7 3, DetachShader 7 4]
   \<and> stdout_log (snd (GLSLProgram_ctor khronos_objects khronos_queries rejecting_driver
                        ''prog'' [\<lparr>handle = 3\<rparr>, \<lparr>handle = 4\<rparr>] fresh_world))
       = [Some ''oops'']
   \<and> handle (fst (GLSLProgram_ctor khronos_objects khronos_queries rejecting_driver ''prog''
                    [\<lparr>handle = 3\<rparr>, \<lparr>handle = 4\<rparr>] fresh_world)) = 7
   \<and> calls (snd (GLSLProgram_ctor khronos_objects khronos_queries accepting_driver ''prog''
                   [\<lparr>handle = 3\<rparr>, \<lparr>handle = 4\<rparr>] fresh_world))
       = [CreateProgram, ObjectLabel 0x82E2 7 4 ''prog'', AttachShader 7 3, AttachShader 7 4,
          LinkProgram 7, ValidateProgram 7, GetProgramiv 7 0x8B82, UseProgram 7,
          DetachShader 7 3, DetachShader 7 4]
   \<and> stdout_log (snd (GLSLProgram_ctor khronos_objects khronos_queries accepting_driver
                        ''prog'' [\<lparr>handle = 3\<rparr>, \<lparr>handle = 4\<rparr>] fresh_world))
       = []"
  using GLSLProgram_ctor_sequence
          [where d = rejecting_driver and w = fresh_world and k = khronos_objects
             and q = khronos_queries and name = "''prog''"
             and shaders = "[\<lparr>handle = 3\<rparr>, \<lparr>handle = 4\<rparr>]"]
        GLSLProgram_ctor_sequence
          [where d = accepting_driver and w = fresh_world and k = khronos_objects
             and q = khronos_queries and name = "''prog''"
             and shaders = "[\<lparr>handle = 3\<rparr>, \<lparr>handle = 4\<rparr>]"]
  by (simp add: split_def Let_def rejecting_driver_def accepting_driver_def fresh_world_def
      khronos_objects_def khronos_queries_def word_sless_alt)

subsection \<open>C2: GLFBO bind, then unbind\<close>

text \<open>
  C2. For every target \<open>t\<close>: \<^verbatim>\<open>bind(t)\<close> followed by \<^verbatim>\<open>unbind()\<close> issues the bind of the
  framebuffer's handle to \<open>t\<close> and then the bind of framebuffer 0 to that same \<open>t\<close>, whatever
  target the object held before; afterwards the stored target is 0 and the handle is
  unchanged.
\<close>

theorem GLFBO_bind_unbind:
  "(let (f1, w1) = GLFBO_bind f t w; (f2, w2) = GLFBO_unbind f1 w1
    in calls w2 = calls w @ [BindFramebuffer t (handle f), BindFramebuffer t 0]
       \<and> GLFBO.target f2 = 0 \<and> handle f2 = handle f)"
  by (simp add: GLFBO_bind_def GLFBO_unbind_def)

text \<open>A framebuffer object created for one target and bound to another.\<close>

theorem GLFBO_bind_unbind_witness:
  "GLFBO_unbind (fst (GLFBO_bind \<lparr>handle = 7, GLFBO.target = 0x8D40\<rparr> 0x8CA9 fresh_world))
     (snd (GLFBO_bind \<lparr>handle = 7, GLFBO.target = 0x8D40\<rparr> 0x8CA9 fresh_world))
   = (\<lparr>handle = 7, GLFBO.target = 0\<rparr>,
      \<lparr>calls = [BindFramebuffer 0x8CA9 7, BindFramebuffer 0x8CA9 0], stdout_log = [],
        stderr_text = [], allocs = []\<rparr>)"
  using GLFBO_bind_unbind
          [where f = "\<lparr>handle = 7, GLFBO.target = 0x8D40\<rparr>" and t = "0x8CA9"
             and w = fresh_world]
  by (simp add: GLFBO_bind_def GLFBO_unbind_def call_def fresh_world_def)

subsection \<open>C3: what the constructors bind\<close>

text \<open>
  C3 (as amended). The constructors of \<^verbatim>\<open>VAO\<close>, \<^verbatim>\<open>GLBuffer\<close>, \<^verbatim>\<open>GLTexture\<close> and \<^verbatim>\<open>GLFBO\<close>
  allocate a name, bind the new name (to the given target, where the kind has one) and then
  label the object with the given name. The constructor of \<^verbatim>\<open>GLSLShader\<close> allocates a
  shader and labels it, and issues no bind or activate call at all. The constructor of
  \<^verbatim>\<open>GLSLProgram\<close> allocates a program and labels it; it activates the new program exactly
  when the link status is non-zero, and issues no other bind or activate call.
\<close>

theorem constructors_bind_when_bindable:
  "(let h = name_reply d (calls w @ [GenVertexArrays 1]); (v, w') = VAO_ctor k d name w
    in handle v = h
       \<and> issued w w' = [GenVertexArrays 1, BindVertexArray h,
                         ObjectLabel (GL_VERTEX_ARRAY k) h (of_nat (length name)) name])
   \<and> (let h = name_reply d (calls w @ [GenBuffers 1]); (b, w') = GLBuffer_ctor k d tgt name w
    in handle b = h \<and> GLBuffer.target b = tgt
       \<and> issued w w' = [GenBuffers 1, BindBuffer tgt h,
                         ObjectLabel (GL_BUFFER k) h (of_nat (length name)) name])
   \<and> (let h = name_reply d (calls w @ [GenTextures 1]);
        (t, w') = GLTexture_ctor k d tgt name levels fmt width height depth w
    in handle t = h \<and> GLTexture.target t = tgt
       \<and> take 3 (issued w w') = [GenTextures 1, BindTexture tgt h,
                                  ObjectLabel (GL_TEXTURE k) h (of_nat (length name)) name])
   \<and> (let h = name_reply d (calls w @ [GenFramebuffers 1]);
        (f, w') = GLFBO_ctor k d tgt name levels fmt width height depth w
    in handle f = h \<and> GLFBO.target f = tgt
       \<and> take 3 (issued w w') = [GenFramebuffers 1, BindFramebuffer tgt h,
                                  ObjectLabel (GL_FRAMEBUFFER k) h (of_nat (length name)) name])
   \<and> (let h = name_reply d (calls w @ [CreateShader type]);
        (s, w') = GLSLShader_ctor k q d type name code w
    in handle s = h
       \<and> take 2 (issued w w')
           = [CreateShader type, ObjectLabel (GL_SHADER k) h (of_nat (length name)) name]
       \<and> filter (binds x) (issued w w') = [])
   \<and> (let h = name_reply d (calls w @ [CreateProgram]);
        linked = calls w @ [CreateProgram,
                            ObjectLabel (GL_PROGRAM k) h (of_nat (length name)) name]
                   @ map (\<lambda>s. AttachShader h (handle s)) shaders
                   @ [LinkProgram h, ValidateProgram h, GetProgramiv h (GL_LINK_STATUS q)];
        (p, w') = GLSLProgram_ctor k q d name shaders w
    in handle p = h
       \<and> take 2 (issued w w')
           = [CreateProgram, ObjectLabel (GL_PROGRAM k) h (of_nat (length name)) name]
       \<and> filter (binds x) (issued w w')
           = (if iv_reply d linked \<noteq> 0 \<and> x = h then [UseProgram h] else []))"
  by (intro conjI VAO_ctor_binds GLBuffer_ctor_binds GLTexture_ctor_binds GLFBO_ctor_binds
      GLSLShader_ctor_binds GLSLProgram_ctor_activates)

text \<open>A vertex array, a program that links and a shader that compiles, all named 7.\<close>

theorem constructors_bind_when_bindable_witness:
  "issued fresh_world (snd (VAO_ctor khronos_objects accepting_driver ''vao'' fresh_world))
     = [GenVertexArrays 1, BindVertexArray 7, ObjectLabel 0x8074 7 3 ''vao'']
   \<and> filter (binds 7)
       (issued fresh_world
          (snd (GLSLProgram_ctor khronos_objects khronos_queries accepting_driver ''prog''
                  [\<lparr>handle = 3\<rparr>] fresh_world)))
       = [UseProgram 7]
   \<and> filter (binds 7)
       (issued fresh_world
          (snd (GLSLShader_ctor khronos_objects khronos_queries accepting_driver 0x8B31
                  ''vs'' ''void main(){}'' fresh_world)))
       = []"
  using constructors_bind_when_bindable
          [where d = accepting_driver and w = fresh_world and k = khronos_objects
             and q = khronos_queries and name = "''vao''" and x = 7]
        constructors_bind_when_bindable
          [where d = accepting_driver and w = fresh_world and k = khronos_objects
             and q = khronos_queries and name = "''prog''" and x = 7
             and shaders = "[\<lparr>handle = 3\<rparr>]"]
        constructors_bind_when_bindable
          [where d = accepting_driver and w = fresh_world and k = khronos_objects
             and q = khronos_queries and name = "''vs''" and x = 7 and type = "0x8B31"
             and code = "''void main(){}''"]
  by (simp add: split_def Let_def accepting_driver_def fresh_world_def khronos_objects_def
      khronos_queries_def)

text \<open>
  The claim as first stated asks every constructor for a bind or activate call on the new
  handle. A vertex shader that compiles at once: the constructor's five calls are the
  whole history, and none of them binds or activates the shader 7. A program whose link
  fails: the constructor's eight calls are the whole history, and none of them activates
  the program 7.
\<close>

theorem GLSLShader_ctor_binds_nothing_counterexample:
  "handle (fst (GLSLShader_ctor khronos_objects khronos_queries accepting_driver
                  0x8B31 ''vs'' ''void main(){}'' fresh_world)) = 7
   \<and> calls (snd (GLSLShader_ctor khronos_objects khronos_queries accepting_driver
                   0x8B31 ''vs'' ''void main(){}'' fresh_world))
       = [CreateShader 0x8B31, ObjectLabel 0x82E1 7 2 ''vs'',
          ShaderSource 7 1 ''void main(){}'', CompileShader 7, GetShaderiv 7 0x8B81]
   \<and> \<not> list_ex (binds 7)
         (calls (snd (GLSLShader_ctor khronos_objects khronos_queries accepting_driver
                        0x8B31 ''vs'' ''void main(){}'' fresh_world)))
   \<and> handle (fst (GLSLProgram_ctor khronos_objects khronos_queries silent_driver ''prog''
                    [\<lparr>handle = 3\<rparr>] fresh_world)) = 7
   \<and> calls (snd (GLSLProgram_ctor khronos_objects khronos_queries silent_driver ''prog''
                   [\<lparr>handle = 3\<rparr>] fresh_world))
       = [CreateProgram, ObjectLabel 0x82E2 7 4 ''prog'', AttachShader 7 3, LinkProgram 7,
          ValidateProgram 7, GetProgramiv 7 0x8B82, GetProgramiv 7 0x8B84, DetachShader 7 3]
   \<and> \<not> list_ex (binds 7)
         (calls (snd (GLSLProgram_ctor khronos_objects khronos_queries silent_driver ''prog''
                        [\<lparr>handle = 3\<rparr>] fresh_world)))"
  by (simp add: GLSLShader_ctor_def GLSLShader_compile_def GLSLProgram_ctor_def
      GLSLProgram_link_def GLSLProgram_getLog_def gen_name_def get_iv_def
      accepting_driver_def silent_driver_def fresh_world_def khronos_objects_def
      khronos_queries_def)

subsection \<open>C4: the storage dispatch of the constructors\<close>

text \<open>
  C4 (as amended). The constructors of \<^verbatim>\<open>GLTexture\<close> and \<^verbatim>\<open>GLFBO\<close> issue, after
  allocating, binding and labelling, exactly one storage allocation: the 3D one when depth
  is not 1, else the 2D one when height is not 1, else the 1D one. The constructor of
  \<^verbatim>\<open>GLBuffer\<close> takes no sizes and issues no storage allocation.
\<close>

theorem storage_dispatch:
  "(let h = name_reply d (calls w @ [GenTextures 1]);
        storage = (if depth \<noteq> 1 then TexStorage3D tgt levels fmt width height depth
                   else if height \<noteq> 1 then TexStorage2D tgt levels fmt width height
                   else TexStorage1D tgt levels fmt width);
        (t, w') = GLTexture_ctor k d tgt name levels fmt width height depth w
    in issued w w' = [GenTextures 1, BindTexture tgt h,
                      ObjectLabel (GL_TEXTURE k) h (of_nat (length name)) name, storage]
       \<and> filter is_storage (issued w w') = [storage])
   \<and> (let h = name_reply d (calls w @ [GenFramebuffers 1]);
        storage = (if depth \<noteq> 1 then TexStorage3D tgt levels fmt width height depth
                   else if height \<noteq> 1 then TexStorage2D tgt levels fmt width height
                   else TexStorage1D tgt levels fmt width);
        (f, w') = GLFBO_ctor k d tgt name levels fmt width height depth w
    in issued w w' = [GenFramebuffers 1, BindFramebuffer tgt h,
                      ObjectLabel (GL_FRAMEBUFFER k) h (of_nat (length name)) name, storage]
       \<and> filter is_storage (issued w w') = [storage])
   \<and> (let (b, w') = GLBuffer_ctor k d tgt name w
    in filter is_storage (issued w w') = [])"
  apply (intro conjI)
    apply (simp add: split_def Let_def GLTexture_ctor_issued)
   apply (simp add: split_def Let_def GLFBO_ctor_issued)
  apply (simp add: split_def GLBuffer_ctor_issued)
  done

text \<open>A 64 by 32 texture, a framebuffer of width 64, and an 8 by 1 by 4 volume.\<close>

theorem storage_dispatch_witness:
  "issued fresh_world
     (snd (GLTexture_ctor khronos_objects accepting_driver 0x0DE1 ''tex'' 1 0x8058 64 32 1
             fresh_world))
     = [GenTextures 1, BindTexture 0x0DE1 7, ObjectLabel 0x1702 7 3 ''tex'',
        TexStorage2D 0x0DE1 1 0x8058 64 32]
   \<and> issued fresh_world
       (snd (GLFBO_ctor khronos_objects accepting_driver 0x8D40 ''fbo'' 1 0x8058 64 1 1
               fresh_world))
     = [GenFramebuffers 1, BindFramebuffer 0x8D40 7, ObjectLabel 0x8D40 7 3 ''fbo'',
        TexStorage1D 0x8D40 1 0x8058 64]
   \<and> issued fresh_world
       (snd (GLTexture_ctor khronos_objects accepting_driver 0x806F ''vol'' 1 0x8058 8 1 4
               fresh_world))
     = [GenTextures 1, BindTexture 0x806F 7, ObjectLabel 0x1702 7 3 ''vol'',
        TexStorage3D 0x806F 1 0x8058 8 1 4]"
  using storage_dispatch
          [where d = accepting_driver and w = fresh_world and k = khronos_objects
             and tgt = "0x0DE1" and name = "''tex''" and levels = 1 and fmt = "0x8058"
             and width = 64 and height = 32 and depth = 1]
        storage_dispatch
          [where d = accepting_driver and w = fresh_world and k = khronos_objects
             and tgt = "0x8D40" and name = "''fbo''" and levels = 1 and fmt = "0x8058"
             and width = 64 and height = 1 and depth = 1]
        storage_dispatch
          [where d = accepting_driver and w = fresh_world and k = khronos_objects
             and tgt = "0x806F" and name = "''vol''" and levels = 1 and fmt = "0x8058"
             and width = 8 and height = 1 and depth = 4]
  by (simp add: split_def Let_def accepting_driver_def fresh_world_def khronos_objects_def)

text \<open>
  The claim as first stated has the constructor of \<^verbatim>\<open>GLBuffer\<close> pick a storage path too.
  An array buffer named "vb": the constructor's three calls are the whole history, and
  none of them allocates storage.
\<close>

theorem GLBuffer_ctor_no_storage_counterexample:
  "calls (snd (GLBuffer_ctor khronos_objects accepting_driver 0x8892 ''vb'' fresh_world))
     = [GenBuffers 1, BindBuffer 0x8892 7, ObjectLabel 0x82E0 7 2 ''vb'']
   \<and> \<not> list_ex is_storage
         (calls (snd (GLBuffer_ctor khronos_objects accepting_driver 0x8892 ''vb''
                        fresh_world)))"
  by (simp add: GLBuffer_ctor_def gen_name_def accepting_driver_def fresh_world_def
      khronos_objects_def)

subsection \<open>C5: the debug callback\<close>

text \<open>
  C5. For every message the callback writes exactly one text to standard error, made of the
  source label in brackets, the type label, the severity label in parentheses, a colon,
  the message as \<^verbatim>\<open>%.*s\<close> prints it, and a newline; the message is printed whole whenever
  the given length covers it. The callback then ends the process with status 1 if and
  only if the type is \<^verbatim>\<open>GL_DEBUG_TYPE_ERROR\<close> or the severity is
  \<^verbatim>\<open>GL_DEBUG_SEVERITY_HIGH\<close>, and returns otherwise. It issues no driver call.
\<close>

theorem debug_callback_logs_then_exits_on_error:
  "(let (out, w') = debug_callback se te ve source type ident severity len message w
    in stderr_text w' =
         stderr_text w
         @ [''['' @ debugSourceString se source @ ''] '' @ debugTypeString te type
              @ '' ('' @ debugSeverityString ve severity @ ''): ''
              @ precision_s len message @ [CHR 0x0A]]
       \<and> (out = Exits 1)
           = (type = GL_DEBUG_TYPE_ERROR te \<or> severity = GL_DEBUG_SEVERITY_HIGH ve)
       \<and> (out = Returns)
           = (\<not> (type = GL_DEBUG_TYPE_ERROR te \<or> severity = GL_DEBUG_SEVERITY_HIGH ve))
       \<and> calls w' = calls w \<and> stdout_log w' = stdout_log w)
   \<and> (sint len < 0 \<or> int (length message) \<le> sint len
        \<longrightarrow> precision_s len message = message)"
  by (simp add: debug_callback_def Let_def precision_s_whole)

text \<open>An error of medium severity ends the process; a performance note does not.\<close>

theorem debug_callback_logs_then_exits_on_error_witness:
  "debug_callback khronos_sources khronos_types khronos_severities
     0x8246 0x824C 1280 0x9147 8 ''bad enum'' fresh_world
     = (Exits 1, \<lparr>calls = [], stdout_log = [],
                   stderr_text = [''[API] Error (Medium): bad enum'' @ [CHR 0x0A]],
                   allocs = []\<rparr>)
   \<and> debug_callback khronos_sources khronos_types khronos_severities
       0x8246 0x8250 7 0x9147 4 ''slow'' fresh_world
     = (Returns, \<lparr>calls = [], stdout_log = [],
                   stderr_text = [''[API] Performance (Medium): slow'' @ [CHR 0x0A]],
                   allocs = []\<rparr>)
   \<and> int (length ''bad enum'') \<le> sint (8 :: GLsizei)
   \<and> precision_s 8 ''bad enum'' = ''bad enum''"
  using debug_callback_logs_then_exits_on_error
          [of khronos_sources khronos_types khronos_severities "0x8246" "0x824C" 1280
              "0x9147" 8 "''bad enum''" fresh_world]
  by (simp add: debug_callback_def debugSourceString_def debugTypeString_def
      debugSeverityString_def precision_s_def fprintf_stderr_def fresh_world_def
      khronos_sources_def khronos_types_def khronos_severities_def)

subsection \<open>C6: no fetch and no allocation for an empty log\<close>

text \<open>
  C6. For \<^verbatim>\<open>GLSLShader::getLog\<close> and \<^verbatim>\<open>GLSLProgram::getLog\<close> alike: when the driver
  reports the log length 0, the result is null, the length query is the only driver call
  and nothing is allocated. In general the result is null exactly when the reported length
  is not positive; a positive length \<open>n\<close> yields one allocation of exactly \<open>n\<close> characters
  followed by one fetch of \<open>n\<close> characters, and a non-positive one yields neither.
\<close>

theorem getLog_allocates_only_when_positive:
  "(let c = GetShaderiv (handle s) (GL_INFO_LOG_LENGTH q);
        n = iv_reply d (calls w @ [c]);
        (log, w') = GLSLShader_getLog q d s w
    in (n = 0 \<longrightarrow> log = None \<and> calls w' = calls w @ [c] \<and> allocs w' = allocs w)
       \<and> (log = None) = (\<not> 0 <s n)
       \<and> calls w' = calls w @ [c] @ (if 0 <s n then [GetShaderInfoLog (handle s) n] else [])
       \<and> allocs w' = allocs w @ (if 0 <s n then [nat (sint n)] else []))
   \<and> (let c = GetProgramiv (handle p) (GL_INFO_LOG_LENGTH q);
        n = iv_reply d (calls w @ [c]);
        (log, w') = GLSLProgram_getLog q d p w
    in (n = 0 \<longrightarrow> log = None \<and> calls w' = calls w @ [c] \<and> allocs w' = allocs w)
       \<and> (log = None) = (\<not> 0 <s n)
       \<and> calls w' = calls w @ [c] @ (if 0 <s n then [GetProgramInfoLog (handle p) n] else [])
       \<and> allocs w' = allocs w @ (if 0 <s n then [nat (sint n)] else []))"
  by (intro conjI GLSLShader_getLog_zero GLSLProgram_getLog_zero)

text \<open>
  A driver that reports the length 0 and one that reports the length 5, each asked in a
  world where nothing has happened.
\<close>

theorem getLog_allocates_only_when_positive_witness:
  "iv_reply silent_driver [GetShaderiv 7 (GL_INFO_LOG_LENGTH khronos_queries)] = 0
   \<and> GLSLShader_getLog khronos_queries silent_driver \<lparr>handle = 7\<rparr> fresh_world
       = (None, \<lparr>calls = [GetShaderiv 7 0x8B84], stdout_log = [], stderr_text = [],
                 allocs = []\<rparr>)
   \<and> iv_reply silent_driver [GetProgramiv 7 (GL_INFO_LOG_LENGTH khronos_queries)] = 0
   \<and> GLSLProgram_getLog khronos_queries silent_driver \<lparr>handle = 7\<rparr> fresh_world
       = (None, \<lparr>calls = [GetProgramiv 7 0x8B84], stdout_log = [], stderr_text = [],
                 allocs = []\<rparr>)
   \<and> GLSLShader_getLog khronos_queries rejecting_driver \<lparr>handle = 7\<rparr> fresh_world
       = (Some ''oops'',
          \<lparr>calls = [GetShaderiv 7 0x8B84, GetShaderInfoLog 7 5], stdout_log = [],
            stderr_text = [], allocs = [5]\<rparr>)
   \<and> GLSLProgram_getLog khronos_queries rejecting_driver \<lparr>handle = 7\<rparr> fresh_world
       = (Some ''oops'',
          \<lparr>calls = [GetProgramiv 7 0x8B84, GetProgramInfoLog 7 5], stdout_log = [],
            stderr_text = [], allocs = [5]\<rparr>)"
  using getLog_allocates_only_when_positive
          [of "\<lparr>handle = 7\<rparr>" khronos_queries silent_driver fresh_world "\<lparr>handle = 7\<rparr>"]
        getLog_allocates_only_when_positive
          [of "\<lparr>handle = 7\<rparr>" khronos_queries rejecting_driver fresh_world "\<lparr>handle = 7\<rparr>"]
  by (simp add: GLSLShader_getLog_def GLSLProgram_getLog_def get_iv_def get_info_log_def
      call_def new_char_array_def silent_driver_def rejecting_driver_def fresh_world_def
      khronos_queries_def word_sless_alt)


subsection \<open>C7: GLBuffer map and unmap\<close>

text \<open>
  C7. \<^verbatim>\<open>GLBuffer::map\<close> issues the driver's map call on the stored target and nothing
  else: the object is unchanged, and the result does not depend on the pointer the driver
  returns. \<^verbatim>\<open>GLBuffer::unmap\<close> has the same effect for any two access values: one unmap
  call on the stored target.
\<close>

theorem GLBuffer_map_unmap_discard:
  "GLBuffer_map d b access w = (b, call (MapBuffer (GLBuffer.target b) access) w)
   \<and> GLBuffer_map (d\<lparr>ptr_reply := p\<rparr>) b access w = GLBuffer_map d b access w
   \<and> GLBuffer_unmap b a w = GLBuffer_unmap b a' w
   \<and> GLBuffer_unmap b a w = (b, call (UnmapBuffer (GLBuffer.target b)) w)
   \<and> calls (snd (GLBuffer_unmap b a w)) = calls w @ [UnmapBuffer (GLBuffer.target b)]"
  by (simp add: GLBuffer_map_def glMapBuffer_def GLBuffer_unmap_def)

text \<open>An array buffer mapped, and unmapped with two different access values.\<close>

theorem GLBuffer_map_unmap_discard_witness:
  "GLBuffer_map accepting_driver \<lparr>handle = 7, GLBuffer.target = 0x8892\<rparr> 0x88B9 fresh_world
     = (\<lparr>handle = 7, GLBuffer.target = 0x8892\<rparr>,
        \<lparr>calls = [MapBuffer 0x8892 0x88B9], stdout_log = [], stderr_text = [],
          allocs = []\<rparr>)
   \<and> GLBuffer_map (accepting_driver\<lparr>ptr_reply := \<lambda>hist. 0\<rparr>)
       \<lparr>handle = 7, GLBuffer.target = 0x8892\<rparr> 0x88B9 fresh_world
     = GLBuffer_map accepting_driver \<lparr>handle = 7, GLBuffer.target = 0x8892\<rparr> 0x88B9
         fresh_world
   \<and> GLBuffer_unmap \<lparr>handle = 7, GLBuffer.target = 0x8892\<rparr> 0x88B9 fresh_world
     = GLBuffer_unmap \<lparr>handle = 7, GLBuffer.target = 0x8892\<rparr> 0x88B8 fresh_world
   \<and> GLBuffer_unmap \<lparr>handle = 7, GLBuffer.target = 0x8892\<rparr> 0x88B9 fresh_world
     = (\<lparr>handle = 7, GLBuffer.target = 0x8892\<rparr>,
        \<lparr>calls = [UnmapBuffer 0x8892], stdout_log = [], stderr_text = [], allocs = []\<rparr>)"
  using GLBuffer_map_unmap_discard
          [where d = accepting_driver and b = "\<lparr>handle = 7, GLBuffer.target = 0x8892\<rparr>"
             and access = "0x88B9" and a = "0x88B9" and a' = "0x88B8" and w = fresh_world
             and p = "\<lambda>hist. 0"]
  by (simp add: GLBuffer_map_def glMapBuffer_def GLBuffer_unmap_def call_def fresh_world_def)

subsection \<open>C8: the scoped debug marker\<close>

text \<open>
  C8. Without \<^verbatim>\<open>NDEBUG\<close> the marker's constructor issues exactly one push of a debug group
  (source "application", id 0, length -1, the given message) and its destructor exactly
  one pop, so a scope issues the push, then the calls of its body, then the pop. With
  \<^verbatim>\<open>NDEBUG\<close> constructor and destructor leave the world as it is, and a scope is its body.
\<close>

theorem GLScopedDebugMarker_push_pop:
  "calls (GLScopedDebugMarker_ctor False se msg w)
     = calls w @ [PushDebugGroup (GL_DEBUG_SOURCE_APPLICATION se) 0 (- 1) msg]
   \<and> calls (GLScopedDebugMarker_dtor False w) = calls w @ [PopDebugGroup]
   \<and> calls (marked_scope False se msg body w)
       = calls (body (call (PushDebugGroup (GL_DEBUG_SOURCE_APPLICATION se) 0 (- 1) msg) w))
         @ [PopDebugGroup]
   \<and> GLScopedDebugMarker_ctor True se msg w = w
   \<and> GLScopedDebugMarker_dtor True w = w
   \<and> marked_scope True se msg body w = body w"
  by (simp add: GLScopedDebugMarker_ctor_def GLScopedDebugMarker_dtor_def marked_scope_def)

text \<open>A scope that binds a vertex array, in a debug build and in an optimized one.\<close>

theorem GLScopedDebugMarker_push_pop_witness:
  "calls (marked_scope False khronos_sources ''draw''
            (\<lambda>w. snd (VAO_bind \<lparr>handle = 7\<rparr> w)) fresh_world)
     = [PushDebugGroup 0x824A 0 (- 1) ''draw'', BindVertexArray 7, PopDebugGroup]
   \<and> calls (marked_scope True khronos_sources ''draw''
              (\<lambda>w. snd (VAO_bind \<lparr>handle = 7\<rparr> w)) fresh_world)
     = [BindVertexArray 7]"
  using GLScopedDebugMarker_push_pop
          [where se = khronos_sources and msg = "''draw''" and w = fresh_world
             and body = "\<lambda>w. snd (VAO_bind \<lparr>handle = 7\<rparr> w)"]
  by (simp add: marked_scope_def GLScopedDebugMarker_ctor_def GLScopedDebugMarker_dtor_def
      VAO_bind_def fresh_world_def khronos_sources_def)

subsection \<open>C9: the debug string tables are total\<close>

text \<open>
  C9. The labels of a \<^verbatim>\<open>switch\<close> are pairwise distinct. Then each of
  \<^verbatim>\<open>debugSourceString\<close>, \<^verbatim>\<open>debugTypeString\<close> and \<^verbatim>\<open>debugSeverityString\<close> maps every
  enumerator of its \<^verbatim>\<open>switch\<close> to that enumerator's label and every other value to
  "UNKNOWN"; whatever the argument, the result is one of the function's string literals,
  so it is never null.
\<close>

theorem debug_strings_total:
  assumes "distinct [GL_DEBUG_SOURCE_API se, GL_DEBUG_SOURCE_WINDOW_SYSTEM se,
                     GL_DEBUG_SOURCE_SHADER_COMPILER se, GL_DEBUG_SOURCE_THIRD_PARTY se,
                     GL_DEBUG_SOURCE_APPLICATION se, GL_DEBUG_SOURCE_OTHER se]"
      and "distinct [GL_DEBUG_TYPE_ERROR te, GL_DEBUG_TYPE_DEPRECATED_BEHAVIOR te,
                     GL_DEBUG_TYPE_UNDEFINED_BEHAVIOR te, GL_DEBUG_TYPE_PORTABILITY te,
                     GL_DEBUG_TYPE_PERFORMANCE te, GL_DEBUG_TYPE_OTHER te,
                     GL_DEBUG_TYPE_MARKER te]"
      and "distinct [GL_DEBUG_SEVERITY_HIGH ve, GL_DEBUG_SEVERITY_MEDIUM ve,
                     GL_DEBUG_SEVERITY_LOW ve, GL_DEBUG_SEVERITY_NOTIFICATION ve]"
  shows "map (debugSourceString se)
           [GL_DEBUG_SOURCE_API se, GL_DEBUG_SOURCE_WINDOW_SYSTEM se,
            GL_DEBUG_SOURCE_SHADER_COMPILER se, GL_DEBUG_SOURCE_THIRD_PARTY se,
            GL_DEBUG_SOURCE_APPLICATION se, GL_DEBUG_SOURCE_OTHER se]
         = [''API'', ''Window System'', ''Shader Compiler'', ''Third Party'',
            ''Application'', ''Other'']
       \<and> (source \<notin> set [GL_DEBUG_SOURCE_API se, GL_DEBUG_SOURCE_WINDOW_SYSTEM se,
                    GL_DEBUG_SOURCE_SHADER_COMPILER se, GL_DEBUG_SOURCE_THIRD_PARTY se,
                    GL_DEBUG_SOURCE_APPLICATION se, GL_DEBUG_SOURCE_OTHER se]
           \<longrightarrow> debugSourceString se source = ''UNKNOWN'')
       \<and> debugSourceString se source
           \<in> set [''API'', ''Window System'', ''Shader Compiler'', ''Third Party'',
                   ''Application'', ''Other'', ''UNKNOWN'']
       \<and> map (debugTypeString te)
           [GL_DEBUG_TYPE_ERROR te, GL_DEBUG_TYPE_DEPRECATED_BEHAVIOR te,
            GL_DEBUG_TYPE_UNDEFINED_BEHAVIOR te, GL_DEBUG_TYPE_PORTABILITY te,
            GL_DEBUG_TYPE_PERFORMANCE te, GL_DEBUG_TYPE_OTHER te, GL_DEBUG_TYPE_MARKER te]
         = [''Error'', ''Deprecated'', ''Undefined'', ''Portability'', ''Performance'',
            ''Other'', ''Marker'']
       \<and> (type \<notin> set [GL_DEBUG_TYPE_ERROR te, GL_DEBUG_TYPE_DEPRECATED_BEHAVIOR te,
                  GL_DEBUG_TYPE_UNDEFINED_BEHAVIOR te, GL_DEBUG_TYPE_PORTABILITY te,
                  GL_DEBUG_TYPE_PERFORMANCE te, GL_DEBUG_TYPE_OTHER te,
                  GL_DEBUG_TYPE_MARKER te]
           \<longrightarrow> debugTypeString te type = ''UNKNOWN'')
       \<and> debugTypeString te type
           \<in> set [''Error'', ''Deprecated'', ''Undefined'', ''Portability'', ''Performance'',
                   ''Other'', ''Marker'', ''UNKNOWN'']
       \<and> map (debugSeverityString ve)
           [GL_DEBUG_SEVERITY_HIGH ve, GL_DEBUG_SEVERITY_MEDIUM ve,
            GL_DEBUG_SEVERITY_LOW ve, GL_DEBUG_SEVERITY_NOTIFICATION ve]
         = [''High'', ''Medium'', ''Low'', ''Notification'']
       \<and> (severity \<notin> set [GL_DEBUG_SEVERITY_HIGH ve, GL_DEBUG_SEVERITY_MEDIUM ve,
                      GL_DEBUG_SEVERITY_LOW ve, GL_DEBUG_SEVERITY_NOTIFICATION ve]
           \<longrightarrow> debugSeverityString ve severity = ''UNKNOWN'')
       \<and> debugSeverityString ve severity
           \<in> set [''High'', ''Medium'', ''Low'', ''Notification'', ''UNKNOWN'']"
  by (intro conjI debugSourceString_table debugSourceString_default debugSourceString_literal
      debugTypeString_table debugTypeString_default debugTypeString_literal
      debugSeverityString_table debugSeverityString_default debugSeverityString_literal assms)

text \<open>The tables at the enumerators' values in the Khronos headers, and at 0.\<close>

theorem debug_strings_total_witness:
  "map (debugSourceString khronos_sources)
     [0x8246, 0x8247, 0x8248, 0x8249, 0x824A, 0x824B, 0]
     = [''API'', ''Window System'', ''Shader Compiler'', ''Third Party'', ''Application'',
        ''Other'', ''UNKNOWN'']
   \<and> map (debugTypeString khronos_types)
       [0x824C, 0x824D, 0x824E, 0x824F, 0x8250, 0x8251, 0x8268, 0]
     = [''Error'', ''Deprecated'', ''Undefined'', ''Portability'', ''Performance'',
        ''Other'', ''Marker'', ''UNKNOWN'']
   \<and> map (debugSeverityString khronos_severities) [0x9146, 0x9147, 0x9148, 0x826B, 0]
     = [''High'', ''Medium'', ''Low'', ''Notification'', ''UNKNOWN'']"
proof -
  have s: "distinct [GL_DEBUG_SOURCE_API khronos_sources,
                     GL_DEBUG_SOURCE_WINDOW_SYSTEM khronos_sources,
                     GL_DEBUG_SOURCE_SHADER_COMPILER khronos_sources,
                     GL_DEBUG_SOURCE_THIRD_PARTY khronos_sources,
                     GL_DEBUG_SOURCE_APPLICATION khronos_sources,
                     GL_DEBUG_SOURCE_OTHER khronos_sources]"
    by (simp add: khronos_sources_def)
  have t: "distinct [GL_DEBUG_TYPE_ERROR khronos_types,
                     GL_DEBUG_TYPE_DEPRECATED_BEHAVIOR khronos_types,
                     GL_DEBUG_TYPE_UNDEFINED_BEHAVIOR khronos_types,
                     GL_DEBUG_TYPE_PORTABILITY khronos_types,
                     GL_DEBUG_TYPE_PERFORMANCE khronos_types,
                     GL_DEBUG_TYPE_OTHER khronos_types,
                     GL_DEBUG_TYPE_MARKER khronos_types]"
    by (simp add: khronos_types_def)
  have v: "distinct [GL_DEBUG_SEVERITY_HIGH khronos_severities,
                     GL_DEBUG_SEVERITY_MEDIUM khronos_severities,
                     GL_DEBUG_SEVERITY_LOW khronos_severities,
                     GL_DEBUG_SEVERITY_NOTIFICATION khronos_severities]"
    by (simp add: khronos_severities_def)
  from debug_strings_total [OF s t v, of 0 0 0] show ?thesis
    by (simp add: khronos_sources_def khronos_types_def khronos_severities_def)
qed

subsection \<open>C10: GLBuffer unbind keeps the object\<close>

text \<open>
  C10. For every buffer \<open>b\<close>, \<^verbatim>\<open>unbind\<close> binds object 0 to \<open>b\<close>'s stored target and leaves
  \<open>b\<close> (handle and target) as it is, so a following \<^verbatim>\<open>bind\<close> binds the same handle to the
  same target. \<^verbatim>\<open>GLFBO::unbind\<close>, unlike it, sets the stored target to 0.
\<close>

theorem GLBuffer_unbind_keeps_fields:
  "GLBuffer_unbind b w = (b, call (BindBuffer (GLBuffer.target b) 0) w)
   \<and> calls (snd (GLBuffer_unbind b w)) = calls w @ [BindBuffer (GLBuffer.target b) 0]
   \<and> (let (b1, w1) = GLBuffer_unbind b w; (b2, w2) = GLBuffer_bind b1 w1
      in b2 = b
         \<and> calls w2 = calls w @ [BindBuffer (GLBuffer.target b) 0,
                                 BindBuffer (GLBuffer.target b) (handle b)])
   \<and> GLBuffer.target (fst (GLBuffer_unbind b w)) = GLBuffer.target b
   \<and> GLFBO.target (fst (GLFBO_unbind f w)) = 0"
  by (simp add: GLBuffer_unbind_def GLBuffer_bind_def GLFBO_unbind_def)

text \<open>An array buffer unbound and bound again; a framebuffer object unbound.\<close>

theorem GLBuffer_unbind_keeps_fields_witness:
  "GLBuffer_bind (fst (GLBuffer_unbind \<lparr>handle = 7, GLBuffer.target = 0x8892\<rparr> fresh_world))
     (snd (GLBuffer_unbind \<lparr>handle = 7, GLBuffer.target = 0x8892\<rparr> fresh_world))
   = (\<lparr>handle = 7, GLBuffer.target = 0x8892\<rparr>,
      \<lparr>calls = [BindBuffer 0x8892 0, BindBuffer 0x8892 7], stdout_log = [],
        stderr_text = [], allocs = []\<rparr>)
   \<and> GLFBO.target (fst (GLFBO_unbind \<lparr>handle = 9, GLFBO.target = 0x8D40\<rparr> fresh_world)) = 0"
  using GLBuffer_unbind_keeps_fields
          [where b = "\<lparr>handle = 7, GLBuffer.target = 0x8892\<rparr>" and w = fresh_world
             and f = "\<lparr>handle = 9, GLFBO.target = 0x8D40\<rparr>"]
  by (simp add: GLBuffer_bind_def GLBuffer_unbind_def GLFBO_unbind_def call_def
      fresh_world_def)

end
